theory Spec2Isabelle
  imports Main
begin

section \<open>Python values\<close>

text \<open>
  \<open>secure_chat.py\<close> handles two kinds of sequence: \<open>bytes\<close> (what the socket and the
  gpg subprocess carry) and \<open>str\<close> (what \<open>bytes.decode\<close> returns: a sequence of Unicode
  code points). A byte is a \<open>char\<close>, which in HOL is an 8-bit value; a code point is a
  \<open>nat\<close>. The length of a \<open>pystr\<close> counts code points and the length of \<open>bytes\<close> counts
  bytes, as \<open>len\<close> does in the source.
\<close>

type_synonym bytes = "char list"
type_synonym pystr = "nat list"

definition ascii :: "string \<Rightarrow> pystr" where
  \<comment> \<open>a string literal of the source: one code point for each ASCII character\<close>
  "ascii s = map of_char s"

definition NL :: nat where
  \<comment> \<open>the code point of the newline character\<close>
  "NL = 10"

definition COLON :: nat where
  "COLON = 58"

definition SLASH :: nat where
  "SLASH = 47"

section \<open>Library functions the program calls\<close>

definition startswith :: "'a list \<Rightarrow> 'a list \<Rightarrow> bool" where
  \<comment> \<open>\<open>s.startswith(p)\<close>\<close>
  "startswith s p = (take (length p) s = p)"

definition partition_at :: "'a \<Rightarrow> 'a list \<Rightarrow> 'a list \<times> 'a list \<times> 'a list" where
  \<comment> \<open>\<open>s.partition(sep)\<close> for a separator of one character: the part before the first
      separator, the separator, the part after it; \<open>(s, "", "")\<close> when there is none\<close>
  "partition_at sep s =
     (if sep \<in> set s
      then (takeWhile (\<lambda>c. c \<noteq> sep) s, [sep], tl (dropWhile (\<lambda>c. c \<noteq> sep) s))
      else (s, [], []))"

fun split_max :: "nat \<Rightarrow> 'a \<Rightarrow> 'a list \<Rightarrow> 'a list list" where
  \<comment> \<open>\<open>s.split(sep, maxsplit)\<close> for a separator of one character\<close>
  "split_max 0 sep s = [s]"
| "split_max (Suc n) sep s =
     (if sep \<in> set s
      then takeWhile (\<lambda>c. c \<noteq> sep) s # split_max n sep (tl (dropWhile (\<lambda>c. c \<noteq> sep) s))
      else [s])"

definition basename :: "pystr \<Rightarrow> pystr" where
  \<comment> \<open>\<open>os.path.basename\<close> on POSIX: what follows the last slash\<close>
  "basename p = rev (takeWhile (\<lambda>c. c \<noteq> SLASH) (rev p))"

subsection \<open>UTF-8\<close>

definition utf8_encode1 :: "nat \<Rightarrow> bytes option" where
  \<comment> \<open>one code point; \<open>None\<close> is \<open>UnicodeEncodeError\<close> (a surrogate), or a number that is
      no code point of a Python \<open>str\<close>\<close>
  "utf8_encode1 cp =
     (if cp < 0x80 then Some [char_of cp]
      else if cp < 0x800 then
        Some [char_of (0xC0 + cp div 0x40), char_of (0x80 + cp mod 0x40)]
      else if cp < 0x10000 then
        (if 0xD800 \<le> cp \<and> cp \<le> 0xDFFF then None
         else Some [char_of (0xE0 + cp div 0x1000),
                    char_of (0x80 + (cp div 0x40) mod 0x40),
                    char_of (0x80 + cp mod 0x40)])
      else if cp < 0x110000 then
        Some [char_of (0xF0 + cp div 0x40000),
              char_of (0x80 + (cp div 0x1000) mod 0x40),
              char_of (0x80 + (cp div 0x40) mod 0x40),
              char_of (0x80 + cp mod 0x40)]
      else None)"

fun utf8_encode :: "pystr \<Rightarrow> bytes option" where
  \<comment> \<open>\<open>s.encode('utf-8')\<close>\<close>
  "utf8_encode [] = Some []"
| "utf8_encode (cp # s) =
     (case utf8_encode1 cp of
        None \<Rightarrow> None
      | Some b \<Rightarrow> map_option ((@) b) (utf8_encode s))"

definition second_range :: "nat \<Rightarrow> nat \<times> nat" where
  \<comment> \<open>the values the second byte of a sequence may take, by lead byte: the bounds that
      exclude overlong forms, surrogates and code points above U+10FFFF\<close>
  "second_range b0 =
     (if b0 = 0xE0 then (0xA0, 0xBF)
      else if b0 = 0xED then (0x80, 0x9F)
      else if b0 = 0xF0 then (0x90, 0xBF)
      else if b0 = 0xF4 then (0x80, 0x8F)
      else (0x80, 0xBF))"

definition in_range :: "nat \<times> nat \<Rightarrow> char \<Rightarrow> bool" where
  "in_range r c = (fst r \<le> of_char c \<and> of_char c \<le> snd r)"

definition cont :: "char \<Rightarrow> bool" where
  \<comment> \<open>a continuation byte\<close>
  "cont c = in_range (0x80, 0xBF) c"

definition low6 :: "char \<Rightarrow> nat" where
  "low6 c = of_char c mod 0x40"

fun utf8_next :: "bytes \<Rightarrow> (nat \<times> bytes) option" where
  \<comment> \<open>the first code point of a byte sequence and the bytes after it; \<open>None\<close> where the
      strict decoder raises \<open>UnicodeDecodeError\<close>\<close>
  "utf8_next [] = None"
| "utf8_next (c # cs) =
     (let b0 = of_char c in
      if b0 < 0x80 then Some (b0, cs)
      else if 0xC2 \<le> b0 \<and> b0 \<le> 0xDF then
        (case cs of
           c1 # r \<Rightarrow>
             if cont c1 then Some ((b0 - 0xC0) * 0x40 + low6 c1, r) else None
         | _ \<Rightarrow> None)
      else if 0xE0 \<le> b0 \<and> b0 \<le> 0xEF then
        (case cs of
           c1 # c2 # r \<Rightarrow>
             if in_range (second_range b0) c1 \<and> cont c2
             then Some ((b0 - 0xE0) * 0x1000 + low6 c1 * 0x40 + low6 c2, r)
             else None
         | _ \<Rightarrow> None)
      else if 0xF0 \<le> b0 \<and> b0 \<le> 0xF4 then
        (case cs of
           c1 # c2 # c3 # r \<Rightarrow>
             if in_range (second_range b0) c1 \<and> cont c2 \<and> cont c3
             then Some ((b0 - 0xF0) * 0x40000 + low6 c1 * 0x1000 + low6 c2 * 0x40 + low6 c3, r)
             else None
         | _ \<Rightarrow> None)
      else None)"

lemma utf8_next_shorter: "utf8_next bs = Some (cp, r) \<Longrightarrow> length r < length bs"
  by (cases bs) (auto simp: Let_def split: if_splits list.splits)

function utf8_decode :: "bytes \<Rightarrow> pystr option" where
  \<comment> \<open>\<open>b.decode('utf-8')\<close>, strict: \<open>None\<close> is \<open>UnicodeDecodeError\<close>\<close>
  "utf8_decode bs =
     (if bs = [] then Some []
      else case utf8_next bs of
             None \<Rightarrow> None
           | Some (cp, r) \<Rightarrow> map_option ((#) cp) (utf8_decode r))"
  by pat_completeness auto
termination
  by (relation "measure length") (auto dest: utf8_next_shorter)

declare utf8_decode.simps [simp del]

section \<open>The units on the wire\<close>

text \<open>
  The send loop writes two kinds of unit to the socket: an encrypted text message
  (\<open>connection.sendall(cipher_bytes)\<close>) and an encrypted file under a header
  (\<open>connection.sendall(header + encrypted_data)\<close>). The receive loop tells the same two
  kinds apart. A frame is one such unit: its kind, the file name (empty for a text
  message) and the ciphertext.
\<close>

datatype unit_kind = TextMessage | FileTransfer

record frame =
  kind :: unit_kind
  metadata :: pystr
  payload :: bytes

definition file_header :: "pystr \<Rightarrow> bytes option" where
  \<comment> \<open>\<open>f"FILE:{name}:\n".encode('utf-8')\<close>\<close>
  "file_header name = utf8_encode (ascii ''FILE:'' @ name @ [COLON, NL])"

definition encode :: "frame \<Rightarrow> bytes option" where
  \<comment> \<open>the bytes the send loop passes to \<open>sendall\<close> for a unit; \<open>None\<close> when encoding the
      header raises\<close>
  "encode f =
     (case kind f of
        TextMessage \<Rightarrow> Some (payload f)
      | FileTransfer \<Rightarrow> map_option (\<lambda>header. header @ payload f) (file_header (metadata f)))"

definition send_file :: "pystr \<Rightarrow> bytes \<Rightarrow> bytes option" where
  \<comment> \<open>the \<open>/send\<close> branch, from the file's path and its encrypted content: the header
      names the file by \<open>os.path.basename(filepath)\<close>\<close>
  "send_file filepath encrypted_data =
     encode \<lparr>kind = FileTransfer, metadata = basename filepath, payload = encrypted_data\<rparr>"

definition send_text :: "bytes \<Rightarrow> bytes option" where
  \<comment> \<open>the text branch, from the ciphertext \<open>encrypt_message\<close> returned\<close>
  "send_text cipher_bytes =
     encode \<lparr>kind = TextMessage, metadata = [], payload = cipher_bytes\<rparr>"

section \<open>The socket\<close>

text \<open>
  The inbound stream is the sequence of what arrives: segments of bytes, or a failure of
  the connection. \<open>recv n\<close> blocks until something has arrived and returns at most \<open>n\<close>
  bytes of it, leaving the rest for the next call; it returns the empty byte string once
  the peer has closed the stream, and raises on a failure. A segment holds at least one
  byte; an empty one would reach the loop as the empty byte string does, as the end of
  the stream.
\<close>

datatype arrival = Seg bytes | Err

type_synonym stream = "arrival list"

datatype recv_result = RData bytes | RError

fun recv :: "nat \<Rightarrow> stream \<Rightarrow> recv_result \<times> stream" where
  "recv n [] = (RData [], [])"
| "recv n (Err # s) = (RError, s)"
| "recv n (Seg bs # s) =
     (if length bs \<le> n then (RData bs, s)
      else (RData (take n bs), Seg (drop n bs) # s))"

fun weight :: "stream \<Rightarrow> nat" where
  "weight [] = 0"
| "weight (Err # s) = Suc (weight s)"
| "weight (Seg bs # s) = Suc (length bs + weight s)"

section \<open>The receive thread\<close>

text \<open>
  gpg is outside the program: the environment says what each invocation does. A run of
  \<open>subprocess.run(..., check=True)\<close> completes with the process's standard output, raises
  \<open>CalledProcessError\<close> carrying its standard error, or raises something else (gpg is not
  installed, an argument holds a NUL character). The lossy decoder
  \<open>decode('utf-8', errors='ignore')\<close> is a parameter as well.
\<close>

datatype proc_result = Completed bytes | CalledProcessError bytes | OtherException

record env =
  gpg_decrypt :: "bytes \<Rightarrow> proc_result"
  gpg_decrypt_to :: "pystr \<Rightarrow> bytes \<Rightarrow> proc_result"
  decode_ignore :: "bytes \<Rightarrow> pystr"

text \<open>
  What the thread does is recorded as a list of events, in order: the messages it prints
  (\<open>OutClosedByPeer\<close>, \<open>OutPeer\<close> with the plaintext, \<open>OutCouldNotDecrypt\<close>,
  \<open>OutFileSaved\<close> with the file name), the ones it writes to standard error
  (\<open>ErrSocketReceive\<close>, \<open>ErrDecryption\<close> and \<open>ErrFileDecryption\<close> with gpg's decoded
  error text), each run of gpg with the bytes it is given (\<open>RunGpgDecrypt\<close>, and
  \<open>RunGpgDecryptTo\<close> with the name after \<open>-o\<close>), and \<open>connection.close()\<close>. The thread
  ends in \<open>os._exit\<close>, which ends the process, or in an exception that nothing catches,
  which ends the thread and leaves the process running.
\<close>

datatype exn = RecvFailed | UnicodeDecodeError | SubprocessFailed

datatype event =
    ErrSocketReceive
  | OutClosedByPeer
  | RunGpgDecrypt bytes
  | RunGpgDecryptTo pystr bytes
  | OutPeer pystr
  | OutCouldNotDecrypt
  | OutFileSaved pystr
  | ErrDecryption pystr
  | ErrFileDecryption pystr
  | CloseConnection

datatype ending = OsExit nat | ThreadDied exn

definition decrypt_message :: "env \<Rightarrow> bytes \<Rightarrow> event list \<times> (exn + pystr option)" where
  \<comment> \<open>\<open>Inr None\<close> is the \<open>None\<close> the source returns when gpg fails; \<open>Inl\<close> is an exception
      that leaves the function\<close>
  "decrypt_message e cipher_text_bytes =
     (case gpg_decrypt e cipher_text_bytes of
        Completed out \<Rightarrow>
          ([RunGpgDecrypt cipher_text_bytes], Inr (Some (decode_ignore e out)))
      | CalledProcessError err \<Rightarrow>
          (case utf8_decode err of
             None \<Rightarrow> ([RunGpgDecrypt cipher_text_bytes], Inl UnicodeDecodeError)
           | Some msg \<Rightarrow> ([RunGpgDecrypt cipher_text_bytes, ErrDecryption msg], Inr None))
      | OtherException \<Rightarrow> ([RunGpgDecrypt cipher_text_bytes], Inl SubprocessFailed))"

definition header_filename :: "pystr \<Rightarrow> pystr" where
  \<comment> \<open>the name the file branch takes from the header line\<close>
  "header_filename header =
     (let filename = ascii ''received_file'';
          header_parts = split_max 2 COLON header
      in if length header_parts \<ge> 2 then header_parts ! 1 else filename)"

definition parse_chunk :: "bytes \<Rightarrow> frame \<times> bool" where
  \<comment> \<open>what the loop body makes of the bytes of one read: the kind of unit, the file name
      and the ciphertext it hands to gpg, and whether it issues the follow-up read\<close>
  "parse_chunk data =
     (let text = utf8_decode data in
      if text \<noteq> None \<and> the text \<noteq> [] \<and> startswith (the text) (ascii ''FILE:'') then
        (case partition_at NL (the text) of
           (header, sep, armored) \<Rightarrow>
             (\<lparr>kind = FileTransfer,
               metadata = header_filename header,
               payload = drop (length header + 1) data\<rparr>,
              armored = [] \<and> sep = [NL]))
      else (\<lparr>kind = TextMessage, metadata = [], payload = data\<rparr>, False))"

definition follow_up :: "stream \<Rightarrow> exn + stream" where
  \<comment> \<open>\<open>more_data = connection.recv(65536)\<close> and its decoding into \<open>armored\<close>, a variable
      the source does not read afterwards\<close>
  "follow_up s =
     (case recv 65536 s of
        (RError, s') \<Rightarrow> Inl RecvFailed
      | (RData more_data, s') \<Rightarrow>
          if more_data \<noteq> [] then
            (case utf8_decode more_data of
               None \<Rightarrow> Inl UnicodeDecodeError
             | Some armored \<Rightarrow> Inr s')
          else Inr s')"

definition receive_file :: "env \<Rightarrow> frame \<Rightarrow> event list \<times> (exn + unit)" where
  \<comment> \<open>\<open>gpg --decrypt -o filename\<close> on the ciphertext, and the report\<close>
  "receive_file e f =
     (case gpg_decrypt_to e (metadata f) (payload f) of
        Completed out \<Rightarrow>
          ([RunGpgDecryptTo (metadata f) (payload f), OutFileSaved (metadata f)], Inr ())
      | CalledProcessError err \<Rightarrow>
          (case utf8_decode err of
             None \<Rightarrow> ([RunGpgDecryptTo (metadata f) (payload f)], Inl UnicodeDecodeError)
           | Some msg \<Rightarrow>
               ([RunGpgDecryptTo (metadata f) (payload f), ErrFileDecryption msg], Inr ()))
      | OtherException \<Rightarrow>
          ([RunGpgDecryptTo (metadata f) (payload f)], Inl SubprocessFailed))"

definition handle_chunk :: "env \<Rightarrow> bytes \<Rightarrow> stream \<Rightarrow> event list \<times> (exn + stream)" where
  \<comment> \<open>the loop body after a read that returned bytes; \<open>Inl\<close> is an exception nothing
      catches, \<open>Inr\<close> the stream the next iteration reads from\<close>
  "handle_chunk e data s =
     (case parse_chunk data of
        (f, follow) \<Rightarrow>
          (case kind f of
             FileTransfer \<Rightarrow>
               (case (if follow then follow_up s else Inr s) of
                  Inl x \<Rightarrow> ([], Inl x)
                | Inr s' \<Rightarrow>
                    (case receive_file e f of
                       (evs, Inl x) \<Rightarrow> (evs, Inl x)
                     | (evs, Inr _) \<Rightarrow> (evs, Inr s')))
           | TextMessage \<Rightarrow>
               (case decrypt_message e data of
                  (evs, Inl x) \<Rightarrow> (evs, Inl x)
                | (evs, Inr (Some plain)) \<Rightarrow> (evs @ [OutPeer plain], Inr s)
                | (evs, Inr None) \<Rightarrow> (evs @ [OutCouldNotDecrypt], Inr s))))"

lemma recv_weight: "recv n s = (r, s') \<Longrightarrow> weight s' \<le> weight s"
  by (induction n s rule: recv.induct) (auto split: if_splits)

lemma recv_weight_data:
  "recv n s = (RData d, s') \<Longrightarrow> d \<noteq> [] \<Longrightarrow> weight s' < weight s"
  by (induction n s rule: recv.induct) (auto split: if_splits)

lemma follow_up_weight: "follow_up s = Inr s' \<Longrightarrow> weight s' \<le> weight s"
  by (auto simp: follow_up_def dest: recv_weight
           split: prod.splits recv_result.splits if_splits option.splits)

lemma handle_chunk_weight: "handle_chunk e d s = (evs, Inr s') \<Longrightarrow> weight s' \<le> weight s"
  by (auto simp: handle_chunk_def dest: follow_up_weight
           split: prod.splits unit_kind.splits sum.splits if_splits option.splits)

function receive_thread_func :: "env \<Rightarrow> stream \<Rightarrow> event list \<times> ending" where
  \<comment> \<open>the \<open>while True\<close> loop and what follows it: the connection is closed and the process
      exits with code 0; an exception nothing catches ends the thread alone\<close>
  "receive_thread_func e s =
     (case recv 4096 s of
        (RError, s') \<Rightarrow> ([ErrSocketReceive, CloseConnection], OsExit 0)
      | (RData data, s') \<Rightarrow>
          if data = [] then ([OutClosedByPeer, CloseConnection], OsExit 0)
          else
            (case handle_chunk e data s' of
               (evs, Inl x) \<Rightarrow> (evs, ThreadDied x)
             | (evs, Inr s'') \<Rightarrow>
                 (case receive_thread_func e s'' of
                    (evs', fin) \<Rightarrow> (evs @ evs', fin))))"
  by pat_completeness auto
termination
  apply (relation "measure (\<lambda>(e, s). weight s)")
   apply simp
  subgoal premises p for e s x1 s' data x1a x2 s''
    using p recv_weight_data [of 4096 s data s'] handle_chunk_weight [of e data s' x1a s'']
    by simp
  done

declare receive_thread_func.simps [simp del]

section \<open>Connection establishment\<close>

datatype family = AF_INET | AF_INET6

record config =
  LISTEN_MODE :: bool
  PEER_ADDRESS :: "pystr option"
  PORT :: int

datatype sock_call =
    Socket family
  | Bind pystr int
  | Listen nat
  | Accept
  | Connect "pystr option" int

definition select_family :: "pystr option \<Rightarrow> family" where
  \<comment> \<open>\<open>AF_INET6 if (PEER_ADDRESS and ":" in PEER_ADDRESS) else AF_INET\<close>: \<open>None\<close> and the
      empty string are false\<close>
  "select_family peer =
     (if (case peer of None \<Rightarrow> False | Some a \<Rightarrow> a \<noteq> [] \<and> COLON \<in> set a)
      then AF_INET6 else AF_INET)"

definition bind_host :: "family \<Rightarrow> pystr" where
  "bind_host fam = (if fam = AF_INET6 then ascii ''::'' else [])"

definition establish_calls :: "config \<Rightarrow> sock_call list" where
  \<comment> \<open>the socket calls of the script, in the order it makes them\<close>
  "establish_calls c =
     (let fam = select_family (PEER_ADDRESS c) in
      Socket fam #
      (if LISTEN_MODE c
       then [Bind (bind_host fam) (PORT c), Listen 1, Accept]
       else [Connect (PEER_ADDRESS c) (PORT c)]))"

fun run_calls :: "(sock_call \<Rightarrow> bool) \<Rightarrow> sock_call list \<Rightarrow> sock_call list \<times> bool" where
  \<comment> \<open>a call that raises ends the script: nothing catches it\<close>
  "run_calls ok [] = ([], True)"
| "run_calls ok (c # cs) =
     (if ok c then (case run_calls ok cs of (made, fin) \<Rightarrow> (c # made, fin))
      else ([c], False))"

definition establish :: "(sock_call \<Rightarrow> bool) \<Rightarrow> config \<Rightarrow> sock_call list \<times> bool" where
  \<comment> \<open>the calls made, and whether a connection stands at the end\<close>
  "establish ok c = run_calls ok (establish_calls c)"

section \<open>The length field of the specification's frame layout\<close>

text \<open>
  The specification lays a text-message frame out as one byte of kind tag, then the
  payload length in four bytes, big-endian, then the payload. Nothing in the source
  reads such a field. The function below gives the length that the first bytes of a
  chunk declare when they are read in that layout; it only serves to say which chunks
  a statement about declared lengths speaks of.
\<close>

definition spec_declared_length :: "bytes \<Rightarrow> nat option" where
  "spec_declared_length data =
     (case data of
        tag # b1 # b2 # b3 # b4 # rest \<Rightarrow>
          Some (((of_char b1 * 256 + of_char b2) * 256 + of_char b3) * 256 + of_char b4)
      | _ \<Rightarrow> None)"

section \<open>An environment for the worked examples\<close>

text \<open>
  The examples below run the receive loop against a gpg that accepts any input that
  begins with five dashes, as ASCII armour does, and fails on everything else, writing
  \<open>err\<close> to its standard error. Decrypting a message gives the plaintext \<open>hi\<close>.
\<close>

definition sample_env :: "bytes \<Rightarrow> env" where
  "sample_env err =
     \<lparr>gpg_decrypt =
        (\<lambda>c. if take 5 c = ''-----'' then Completed ''hi'' else CalledProcessError err),
      gpg_decrypt_to =
        (\<lambda>filename c. if take 5 c = ''-----'' then Completed [] else CalledProcessError err),
      decode_ignore = (\<lambda>b. case utf8_decode b of None \<Rightarrow> [] | Some t \<Rightarrow> t)\<rparr>"

section \<open>Facts about the library functions\<close>

lemma utf8_decode_Nil: "utf8_decode [] = Some []"
  by (simp add: utf8_decode.simps)

lemma utf8_decode_Cons:
  "utf8_decode (c # cs) =
     (case utf8_next (c # cs) of
        None \<Rightarrow> None
      | Some (cp, r) \<Rightarrow> map_option ((#) cp) (utf8_decode r))"
  by (subst utf8_decode.simps) simp

lemma utf8_decode_ascii_Cons:
  "of_char c < (0x80::nat) \<Longrightarrow>
     utf8_decode (c # cs) = map_option ((#) (of_char c)) (utf8_decode cs)"
  by (simp add: utf8_decode_Cons Let_def)

lemma utf8_decode_ascii_append:
  "\<forall>c\<in>set a. of_char c < (0x80::nat) \<Longrightarrow>
     utf8_decode (a @ r) = map_option ((@) (map of_char a)) (utf8_decode r)"
proof (induction a)
  case Nil
  show ?case by (simp add: option.map_ident)
next
  case (Cons c a)
  then show ?case
    by (cases "utf8_decode r") (simp_all add: utf8_decode_ascii_Cons)
qed

lemma utf8_decode_empty: "utf8_decode bs = Some [] \<Longrightarrow> bs = []"
  by (cases bs) (auto simp: utf8_decode_Cons split: option.splits)

lemma utf8_first_ascii:
  assumes "utf8_decode (c # cs) = Some t" and "of_char c < (0x80::nat)"
  shows "\<exists>t'. t = of_char c # t' \<and> utf8_decode cs = Some t'"
  using assms by (auto simp: utf8_decode_ascii_Cons)

lemma parse_chunk_text:
  "\<not> (\<exists>t. utf8_decode data = Some t \<and> startswith t (ascii ''FILE:'')) \<Longrightarrow>
     parse_chunk data = (\<lparr>kind = TextMessage, metadata = [], payload = data\<rparr>, False)"
  by (auto simp: parse_chunk_def Let_def)

lemma parse_chunk_file:
  "utf8_decode data = Some t \<Longrightarrow> startswith t (ascii ''FILE:'') \<Longrightarrow>
     parse_chunk data =
       (\<lparr>kind = FileTransfer,
         metadata = header_filename (fst (partition_at NL t)),
         payload = drop (length (fst (partition_at NL t)) + 1) data\<rparr>,
        snd (snd (partition_at NL t)) = [] \<and> fst (snd (partition_at NL t)) = [NL])"
  by (auto simp: parse_chunk_def Let_def startswith_def ascii_def split: prod.splits)


lemma takeWhile_sep:
  "sep \<notin> set a \<Longrightarrow> takeWhile (\<lambda>c. c \<noteq> sep) (a @ sep # r) = a"
  by (induction a) auto

lemma dropWhile_sep:
  "sep \<notin> set a \<Longrightarrow> dropWhile (\<lambda>c. c \<noteq> sep) (a @ sep # r) = sep # r"
  by (induction a) auto

lemma partition_at_first:
  "sep \<notin> set a \<Longrightarrow> partition_at sep (a @ sep # r) = (a, [sep], r)"
  by (simp add: partition_at_def takeWhile_sep dropWhile_sep)

lemma split_max_first:
  "sep \<notin> set a \<Longrightarrow> split_max (Suc n) sep (a @ sep # r) = a # split_max n sep r"
  by (simp add: takeWhile_sep dropWhile_sep)

lemma split_max_none: "sep \<notin> set a \<Longrightarrow> split_max n sep a = [a]"
  by (cases n) simp_all

lemma run_calls_count: "count_list (fst (run_calls ok cs)) x \<le> count_list cs x"
  by (induction cs) (auto split: prod.splits)

lemma run_calls_all: "snd (run_calls ok cs) \<Longrightarrow> fst (run_calls ok cs) = cs"
  by (induction cs) (auto split: prod.splits if_splits)

lemma utf8_encode_ascii:
  "\<forall>cp\<in>set s. cp < 0x80 \<Longrightarrow> utf8_encode s = Some (map char_of s)"
  by (induction s) (simp_all add: utf8_encode1_def)

lemma ascii_bytes_back:
  "\<forall>cp\<in>set s. cp < (0x80::nat) \<Longrightarrow> map of_char (map char_of s :: char list) = s"
  by (induction s) simp_all

lemma ascii_bytes_low:
  "\<forall>cp\<in>set s. cp < (0x80::nat) \<Longrightarrow> \<forall>c\<in>set (map char_of s :: char list). of_char c < (0x80::nat)"
  by (induction s) simp_all

lemma header_filename_of_name:
  assumes "COLON \<notin> set name"
  shows "header_filename (ascii ''FILE:'' @ name @ [COLON]) = name"
proof -
  have f: "COLON \<notin> set (ascii ''FILE'')"
    by (simp add: ascii_def COLON_def)
  have "ascii ''FILE:'' @ name @ [COLON] = ascii ''FILE'' @ COLON # (name @ COLON # [])"
    by (simp add: ascii_def COLON_def)
  then have "split_max 2 COLON (ascii ''FILE:'' @ name @ [COLON]) = [ascii ''FILE'', name, []]"
    using split_max_first [OF f, of 1 "name @ COLON # []"]
          split_max_first [OF assms, of 0 "[]"]
    by (simp add: numeral_2_eq_2)
  then show ?thesis
    by (simp add: header_filename_def Let_def)
qed

section \<open>Facts about the receive loop\<close>

lemma receive_eof:
  "receive_thread_func e [] = ([OutClosedByPeer, CloseConnection], OsExit 0)"
  by (simp add: receive_thread_func.simps)

lemma receive_error:
  "receive_thread_func e (Err # s) = ([ErrSocketReceive, CloseConnection], OsExit 0)"
  by (simp add: receive_thread_func.simps)

lemma receive_step:
  "bs \<noteq> [] \<Longrightarrow> length bs \<le> 4096 \<Longrightarrow>
     receive_thread_func e (Seg bs # s) =
       (case handle_chunk e bs s of
          (evs, Inl x) \<Rightarrow> (evs, ThreadDied x)
        | (evs, Inr s') \<Rightarrow>
            (evs @ fst (receive_thread_func e s'), snd (receive_thread_func e s')))"
  by (subst receive_thread_func.simps) (simp split: prod.splits sum.splits)

lemma payload_suffix: "\<exists>k. payload (fst (parse_chunk d)) = drop k d"
proof (cases "\<exists>t. utf8_decode d = Some t \<and> startswith t (ascii ''FILE:'')")
  case True
  then obtain t where "utf8_decode d = Some t" "startswith t (ascii ''FILE:'')"
    by blast
  then show ?thesis
    by (simp add: parse_chunk_file) blast
next
  case False
  then have "payload (fst (parse_chunk d)) = drop 0 d"
    by (simp add: parse_chunk_text)
  then show ?thesis
    by blast
qed

lemma text_by_first_byte:
  assumes "d \<noteq> []" and "of_char (hd d) < (0x80::nat)" and "hd d \<noteq> CHR ''F''"
  shows "parse_chunk d = (\<lparr>kind = TextMessage, metadata = [], payload = d\<rparr>, False)"
proof (rule parse_chunk_text, rule notI)
  assume "\<exists>t. utf8_decode d = Some t \<and> startswith t (ascii ''FILE:'')"
  then obtain t where t: "utf8_decode d = Some t" "startswith t (ascii ''FILE:'')"
    by blast
  from assms(1) obtain c cs where d: "d = c # cs"
    by (cases d) auto
  with t(1) assms(2) obtain t' where "t = of_char c # t'"
    using utf8_first_ascii [of c cs t] by auto
  with t(2) have "(of_char c :: nat) = of_char CHR ''F''"
    by (simp add: startswith_def ascii_def)
  then have "c = CHR ''F''"
    by (metis char_of_char)
  with assms(3) d show False
    by simp
qed

lemma text_failure_goes_on:
  assumes "parse_chunk d = (\<lparr>kind = TextMessage, metadata = [], payload = d\<rparr>, False)"
    and "gpg_decrypt e d = CalledProcessError err"
    and "utf8_decode err = Some msg"
  shows "handle_chunk e d s =
           ([RunGpgDecrypt d, ErrDecryption msg, OutCouldNotDecrypt], Inr s)"
  using assms by (simp add: handle_chunk_def decrypt_message_def)

lemma text_failure_dies:
  assumes "parse_chunk d = (\<lparr>kind = TextMessage, metadata = [], payload = d\<rparr>, False)"
    and "gpg_decrypt e d = CalledProcessError err"
    and "utf8_decode err = None"
  shows "handle_chunk e d s = ([RunGpgDecrypt d], Inl UnicodeDecodeError)"
  using assms by (simp add: handle_chunk_def decrypt_message_def)

lemma text_success:
  assumes "parse_chunk d = (\<lparr>kind = TextMessage, metadata = [], payload = d\<rparr>, False)"
    and "gpg_decrypt e d = Completed out"
  shows "handle_chunk e d s = ([RunGpgDecrypt d, OutPeer (decode_ignore e out)], Inr s)"
  using assms by (simp add: handle_chunk_def decrypt_message_def)


lemma handle_file:
  assumes "parse_chunk d = (f, follow)" and "kind f = FileTransfer"
    and "(if follow then follow_up s else Inr s) = Inr s'"
    and "receive_file e f = (evs, r)"
  shows "handle_chunk e d s = (evs, case r of Inl x \<Rightarrow> Inl x | Inr u \<Rightarrow> Inr s')"
  using assms by (simp add: handle_chunk_def split: sum.splits)

lemma handle_file_follow_up_raises:
  assumes "parse_chunk d = (f, True)" and "kind f = FileTransfer" and "follow_up s = Inl x"
  shows "handle_chunk e d s = ([], Inl x)"
  using assms by (simp add: handle_chunk_def)

lemma sample_gpg_decrypt:
  "gpg_decrypt (sample_env err) c =
     (if take 5 c = ''-----'' then Completed ''hi'' else CalledProcessError err)"
  by (simp add: sample_env_def)

lemma sample_gpg_decrypt_to:
  "gpg_decrypt_to (sample_env err) name c =
     (if take 5 c = ''-----'' then Completed [] else CalledProcessError err)"
  by (simp add: sample_env_def)

lemma sample_decode_ignore:
  "decode_ignore (sample_env err) b = (case utf8_decode b of None \<Rightarrow> [] | Some t \<Rightarrow> t)"
  by (simp add: sample_env_def)

lemma no_data_text: "utf8_decode ''gpg: no data'' = Some (ascii ''gpg: no data'')"
  by code_simp

lemma hi_text: "utf8_decode ''hi'' = Some (ascii ''hi'')"
  by code_simp

lemma garbage_is_text:
  "parse_chunk ''garbage'' = (\<lparr>kind = TextMessage, metadata = [], payload = ''garbage''\<rparr>, False)"
  by code_simp

lemma ok_is_text:
  "parse_chunk ''-----ok'' = (\<lparr>kind = TextMessage, metadata = [], payload = ''-----ok''\<rparr>, False)"
  by code_simp

lemma B_is_text:
  "parse_chunk ''-----B'' = (\<lparr>kind = TextMessage, metadata = [], payload = ''-----B''\<rparr>, False)"
  by code_simp

lemma A_is_text:
  "parse_chunk ''-----A'' = (\<lparr>kind = TextMessage, metadata = [], payload = ''-----A''\<rparr>, False)"
  by code_simp

lemma AB_is_text:
  "parse_chunk ''-----A-----B'' =
     (\<lparr>kind = TextMessage, metadata = [], payload = ''-----A-----B''\<rparr>, False)"
  by code_simp

lemma handle_chunk_file_eq:
  assumes "utf8_decode data = Some t" and "startswith t (ascii ''FILE:'')"
    and "partition_at NL t = (header, sep, armored)"
  shows "handle_chunk e data s =
     (case (if armored = [] \<and> sep = [NL] then follow_up s else Inr s) of
        Inl x \<Rightarrow> ([], Inl x)
      | Inr s' \<Rightarrow>
          (case gpg_decrypt_to e (header_filename header) (drop (length header + 1) data) of
             Completed out \<Rightarrow>
               ([RunGpgDecryptTo (header_filename header) (drop (length header + 1) data),
                 OutFileSaved (header_filename header)], Inr s')
           | CalledProcessError err \<Rightarrow>
               (case utf8_decode err of
                  None \<Rightarrow>
                    ([RunGpgDecryptTo (header_filename header) (drop (length header + 1) data)],
                     Inl UnicodeDecodeError)
                | Some msg \<Rightarrow>
                    ([RunGpgDecryptTo (header_filename header) (drop (length header + 1) data),
                      ErrFileDecryption msg], Inr s'))
           | OtherException \<Rightarrow>
               ([RunGpgDecryptTo (header_filename header) (drop (length header + 1) data)],
                Inl SubprocessFailed)))"
  using assms
  by (simp add: handle_chunk_def parse_chunk_file receive_file_def
           split: sum.splits proc_result.splits option.splits)

lemma handle_chunk_text_eq:
  assumes "\<not> (\<exists>t. utf8_decode data = Some t \<and> startswith t (ascii ''FILE:''))"
  shows "handle_chunk e data s =
     (case gpg_decrypt e data of
        Completed out \<Rightarrow> ([RunGpgDecrypt data, OutPeer (decode_ignore e out)], Inr s)
      | CalledProcessError err \<Rightarrow>
          (case utf8_decode err of
             None \<Rightarrow> ([RunGpgDecrypt data], Inl UnicodeDecodeError)
           | Some msg \<Rightarrow>
               ([RunGpgDecrypt data, ErrDecryption msg, OutCouldNotDecrypt], Inr s))
      | OtherException \<Rightarrow> ([RunGpgDecrypt data], Inl SubprocessFailed))"
  by (simp add: handle_chunk_def parse_chunk_text [OF assms] decrypt_message_def
           split: proc_result.splits option.splits)

lemma no_close_in_handle: "CloseConnection \<notin> set (fst (handle_chunk e data s))"
proof (cases "\<exists>t. utf8_decode data = Some t \<and> startswith t (ascii ''FILE:'')")
  case True
  then obtain t where t: "utf8_decode data = Some t" "startswith t (ascii ''FILE:'')"
    by blast
  obtain header sep armored where p: "partition_at NL t = (header, sep, armored)"
    by (cases "partition_at NL t") auto
  show ?thesis
    by (simp add: handle_chunk_file_eq [OF t p]
             split: sum.splits proc_result.splits option.splits)
next
  case False
  then show ?thesis
    by (simp add: handle_chunk_text_eq split: proc_result.splits option.splits)
qed




lemma handle_chunk_gpg_first:
  "(\<exists>evs r. handle_chunk e data s = (RunGpgDecrypt data # evs, r))
   \<or> (\<exists>name k evs r. handle_chunk e data s = (RunGpgDecryptTo name (drop k data) # evs, r))
   \<or> (\<exists>x. handle_chunk e data s = ([], Inl x) \<and> (x = RecvFailed \<or> x = UnicodeDecodeError))"
proof (cases "\<exists>t. utf8_decode data = Some t \<and> startswith t (ascii ''FILE:'')")
  case True
  then obtain t where t: "utf8_decode data = Some t" "startswith t (ascii ''FILE:'')"
    by blast
  obtain header sep armored where p: "partition_at NL t = (header, sep, armored)"
    by (cases "partition_at NL t") auto
  have f: "follow_up s' = Inl x \<Longrightarrow> x = RecvFailed \<or> x = UnicodeDecodeError" for s' x
    by (auto simp: follow_up_def split: prod.splits recv_result.splits if_splits option.splits)
  show ?thesis
    using f [of s]
    by (simp add: handle_chunk_file_eq [OF t p]
             split: sum.splits proc_result.splits option.splits) blast
next
  case False
  then show ?thesis
    by (simp add: handle_chunk_text_eq split: proc_result.splits option.splits)
qed

section \<open>C1: what a unit sent in one piece becomes at the receiver\<close>

text \<open>
  C1, as the code has it. The receive loop recovers a unit from the bytes the send loop
  wrote for it when those bytes arrive in one read and the unit fits the text format:
  the bytes are at most 4096 and the ciphertext is not empty; a text message's
  ciphertext is not itself UTF-8 text starting with \<open>FILE:\<close>; a file's name is ASCII
  without colon or newline and its ciphertext decodes as UTF-8 (as ASCII armour does).
  Then the read returns exactly those bytes, leaving the stream behind them untouched,
  the loop body parses them into the unit that was sent, and it issues no follow-up
  read.
\<close>

theorem whole_frame_roundtrip:
  assumes enc: "encode f = Some bs"
    and len: "length bs \<le> 4096"
    and ne: "payload f \<noteq> []"
    and shape:
      "kind f = TextMessage \<and> metadata f = [] \<and>
         \<not> (\<exists>t. utf8_decode (payload f) = Some t \<and> startswith t (ascii ''FILE:''))
       \<or> kind f = FileTransfer \<and>
         (\<forall>cp\<in>set (metadata f). cp < 0x80 \<and> cp \<noteq> COLON \<and> cp \<noteq> NL) \<and>
         utf8_decode (payload f) \<noteq> None"
  shows "recv 4096 (Seg bs # s) = (RData bs, s) \<and> parse_chunk bs = (f, False)"
proof -
  have whole: "recv 4096 (Seg bs # s) = (RData bs, s)"
    using len by simp
  have "parse_chunk bs = (f, False)"
    using shape
  proof (elim disjE conjE)
    assume k: "kind f = TextMessage" and m: "metadata f = []"
      and n: "\<not> (\<exists>t. utf8_decode (payload f) = Some t \<and> startswith t (ascii ''FILE:''))"
    from enc k have bs: "bs = payload f"
      by (simp add: encode_def)
    have "f = \<lparr>kind = TextMessage, metadata = [], payload = payload f\<rparr>"
      using k m by (cases f) simp
    with parse_chunk_text [of bs] n bs show ?thesis
      by simp
  next
    assume k: "kind f = FileTransfer"
      and low: "\<forall>cp\<in>set (metadata f). cp < 0x80 \<and> cp \<noteq> COLON \<and> cp \<noteq> NL"
      and dec: "utf8_decode (payload f) \<noteq> None"
    define name where "name = metadata f"
    define header where "header = ascii ''FILE:'' @ name @ [COLON]"
    define hb :: bytes where "hb = map char_of (header @ [NL])"
    from dec obtain pt where pt: "utf8_decode (payload f) = Some pt"
      by blast
    have pt_ne: "pt \<noteq> []"
      using pt ne utf8_decode_empty by blast
    have hlow: "\<forall>cp\<in>set (header @ [NL]). cp < 0x80"
      using low by (auto simp: header_def name_def ascii_def COLON_def NL_def)
    have "file_header name = Some hb"
      using utf8_encode_ascii [OF hlow] by (simp add: file_header_def header_def hb_def)
    with enc k have bs: "bs = hb @ payload f"
      by (auto simp: encode_def name_def)
    have t: "utf8_decode bs = Some (header @ NL # pt)"
      using utf8_decode_ascii_append [OF ascii_bytes_low [OF hlow], of "payload f"]
            ascii_bytes_back [OF hlow] pt
      by (simp add: bs hb_def)
    have st: "startswith (header @ NL # pt) (ascii ''FILE:'')"
      by (simp add: startswith_def header_def ascii_def)
    have nl: "NL \<notin> set header"
      using low by (auto simp: header_def name_def ascii_def COLON_def NL_def)
    have part: "partition_at NL (header @ NL # pt) = (header, [NL], pt)"
      by (rule partition_at_first [OF nl])
    have colon: "COLON \<notin> set name"
      using low by (auto simp: name_def)
    have fname: "header_filename header = name"
      unfolding header_def by (rule header_filename_of_name [OF colon])
    have cut: "drop (length header + 1) bs = payload f"
      by (simp add: bs hb_def)
    have "f = \<lparr>kind = FileTransfer, metadata = name, payload = payload f\<rparr>"
      using k by (cases f) (simp add: name_def)
    with parse_chunk_file [OF t st] part fname cut pt_ne show ?thesis
      by simp
  qed
  with whole show ?thesis
    by simp
qed

theorem whole_frame_roundtrip_witness:
  "parse_chunk (''FILE:a.txt:'' @ [CHR 0x0A] @ ''XY'') =
     (\<lparr>kind = FileTransfer, metadata = ascii ''a.txt'', payload = ''XY''\<rparr>, False)
   \<and> recv 4096 [Seg ''hello''] = (RData ''hello'', [])
   \<and> parse_chunk ''hello'' = (\<lparr>kind = TextMessage, metadata = [], payload = ''hello''\<rparr>, False)"
proof -
  let ?f = "\<lparr>kind = FileTransfer, metadata = ascii ''a.txt'', payload = ''XY''\<rparr>"
  let ?g = "\<lparr>kind = TextMessage, metadata = [], payload = ''hello''\<rparr>"
  have e1: "encode ?f = Some (''FILE:a.txt:'' @ [CHR 0x0A] @ ''XY'')"
    by code_simp
  have l1: "length (''FILE:a.txt:'' @ [CHR 0x0A] @ ''XY'') \<le> 4096"
    by simp
  have d1: "utf8_decode ''XY'' \<noteq> None"
    by code_simp
  have s1: "kind ?f = TextMessage \<and> metadata ?f = [] \<and>
         \<not> (\<exists>t. utf8_decode (payload ?f) = Some t \<and> startswith t (ascii ''FILE:''))
       \<or> kind ?f = FileTransfer \<and>
         (\<forall>cp\<in>set (metadata ?f). cp < 0x80 \<and> cp \<noteq> COLON \<and> cp \<noteq> NL) \<and>
         utf8_decode (payload ?f) \<noteq> None"
    using d1 by (simp add: ascii_def COLON_def NL_def)
  have e2: "encode ?g = Some ''hello''"
    by code_simp
  have d2: "utf8_decode ''hello'' = Some (ascii ''hello'')"
    by code_simp
  have n2: "\<not> startswith (ascii ''hello'') (ascii ''FILE:'')"
    by code_simp
  have s2: "kind ?g = TextMessage \<and> metadata ?g = [] \<and>
         \<not> (\<exists>t. utf8_decode (payload ?g) = Some t \<and> startswith t (ascii ''FILE:''))
       \<or> kind ?g = FileTransfer \<and>
         (\<forall>cp\<in>set (metadata ?g). cp < 0x80 \<and> cp \<noteq> COLON \<and> cp \<noteq> NL) \<and>
         utf8_decode (payload ?g) \<noteq> None"
    using d2 n2 by simp
  have 1: "parse_chunk (''FILE:a.txt:'' @ [CHR 0x0A] @ ''XY'') = (?f, False)"
    using whole_frame_roundtrip [OF e1 l1 _ s1, of "[]"] by simp
  have 2: "recv 4096 [Seg ''hello''] = (RData ''hello'', [])
           \<and> parse_chunk ''hello'' = (?g, False)"
    using whole_frame_roundtrip [OF e2 _ _ s2, of "[]"] by simp
  from 1 2 show ?thesis
    by simp
qed

text \<open>
  The round trip does not hold for every unit: a text message whose ciphertext is the
  six bytes \<open>FILE:x\<close> is sent as those bytes, and the receive loop parses them as a file
  named \<open>x\<close> with no content.
\<close>

theorem roundtrip_counterexample:
  "encode \<lparr>kind = TextMessage, metadata = [], payload = ''FILE:x''\<rparr> = Some ''FILE:x''
   \<and> parse_chunk ''FILE:x'' =
       (\<lparr>kind = FileTransfer, metadata = ascii ''x'', payload = []\<rparr>, False)"
  by code_simp

section \<open>C2: a unit that arrives in two reads\<close>

text \<open>
  C2. A unit that arrives in two reads is not put back together: the loop keeps no byte
  from one read to the next. The one case the source provides for, a file header with
  nothing after its newline, issues a single follow-up read of at most 65536 bytes, and
  the bytes of that read never reach gpg: the ciphertext is cut from the first read
  alone. Below, the bytes of a file unit named \<open>a.txt\<close> are split right after the
  header: gpg is run on an empty ciphertext and the six bytes of the second read are
  lost, where the same bytes arriving in one read give the file its content.
\<close>

theorem split_file_loses_payload:
  "encode \<lparr>kind = FileTransfer, metadata = ascii ''a.txt'', payload = ''-----X''\<rparr> =
     Some ''FILE:a.txt:\<newline>-----X''
   \<and> receive_thread_func (sample_env ''gpg: no data'')
        [Seg ''FILE:a.txt:\<newline>'', Seg ''-----X''] =
       ([RunGpgDecryptTo (ascii ''a.txt'') [], ErrFileDecryption (ascii ''gpg: no data''),
         OutClosedByPeer, CloseConnection], OsExit 0)
   \<and> receive_thread_func (sample_env ''gpg: no data'')
        [Seg ''FILE:a.txt:\<newline>-----X''] =
       ([RunGpgDecryptTo (ascii ''a.txt'') ''-----X'', OutFileSaved (ascii ''a.txt''),
         OutClosedByPeer, CloseConnection], OsExit 0)"
proof -
  let ?E = "sample_env ''gpg: no data''"
  have enc: "encode \<lparr>kind = FileTransfer, metadata = ascii ''a.txt'', payload = ''-----X''\<rparr> =
     Some ''FILE:a.txt:\<newline>-----X''"
    by code_simp
  have p1: "parse_chunk ''FILE:a.txt:\<newline>'' =
              (\<lparr>kind = FileTransfer, metadata = ascii ''a.txt'', payload = []\<rparr>, True)"
    by code_simp
  have d: "utf8_decode ''-----X'' \<noteq> None"
    by code_simp
  have f1: "follow_up [Seg ''-----X''] = Inr []"
    using d by (auto simp: follow_up_def)
  have r1: "receive_file ?E \<lparr>kind = FileTransfer, metadata = ascii ''a.txt'', payload = []\<rparr> =
              ([RunGpgDecryptTo (ascii ''a.txt'') [],
                ErrFileDecryption (ascii ''gpg: no data'')], Inr ())"
    by (simp add: receive_file_def sample_gpg_decrypt_to no_data_text)
  have h1: "handle_chunk ?E ''FILE:a.txt:\<newline>'' [Seg ''-----X''] =
              ([RunGpgDecryptTo (ascii ''a.txt'') [],
                ErrFileDecryption (ascii ''gpg: no data'')], Inr [])"
    using handle_file [OF p1 _ _ r1, of "[Seg ''-----X'']" "[]"] f1 by simp
  have p2: "parse_chunk ''FILE:a.txt:\<newline>-----X'' =
              (\<lparr>kind = FileTransfer, metadata = ascii ''a.txt'', payload = ''-----X''\<rparr>, False)"
    by code_simp
  have r2: "receive_file ?E
              \<lparr>kind = FileTransfer, metadata = ascii ''a.txt'', payload = ''-----X''\<rparr> =
              ([RunGpgDecryptTo (ascii ''a.txt'') ''-----X'',
                OutFileSaved (ascii ''a.txt'')], Inr ())"
    by (simp add: receive_file_def sample_gpg_decrypt_to)
  have h2: "handle_chunk ?E ''FILE:a.txt:\<newline>-----X'' [] =
              ([RunGpgDecryptTo (ascii ''a.txt'') ''-----X'',
                OutFileSaved (ascii ''a.txt'')], Inr [])"
    using handle_file [OF p2 _ _ r2, of "[]" "[]"] by simp
  have split: "receive_thread_func ?E [Seg ''FILE:a.txt:\<newline>'', Seg ''-----X''] =
       ([RunGpgDecryptTo (ascii ''a.txt'') [], ErrFileDecryption (ascii ''gpg: no data''),
         OutClosedByPeer, CloseConnection], OsExit 0)"
    by (simp add: receive_step h1 receive_eof)
  have whole: "receive_thread_func ?E [Seg ''FILE:a.txt:\<newline>-----X''] =
       ([RunGpgDecryptTo (ascii ''a.txt'') ''-----X'', OutFileSaved (ascii ''a.txt''),
         OutClosedByPeer, CloseConnection], OsExit 0)"
    by (simp add: receive_step h2 receive_eof)
  from enc split whole show ?thesis
    by simp
qed

section \<open>C3: the wire encoding\<close>

text \<open>
  C3, as the code has it. The bytes written for a unit hold no length field: a text
  message is written as its ciphertext and nothing else, a file as the UTF-8 bytes of
  \<open>FILE:\<close>, the name, a colon and a newline, followed by the ciphertext. At the receiver
  the ciphertext of a unit always runs to the end of the bytes of the read it came in,
  and a read of at most 4096 bytes is handled whole, as one unit: where a unit ends is
  decided by where the read ends.
\<close>

theorem wire_encoding_unframed:
  "(kind f = TextMessage \<longrightarrow> encode f = Some (payload f))
   \<and> (kind f = FileTransfer \<longrightarrow>
        encode f =
          map_option (\<lambda>header. header @ payload f)
            (utf8_encode (ascii ''FILE:'' @ metadata f @ ascii '':'' @ [NL])))
   \<and> (\<exists>k. payload (fst (parse_chunk data)) = drop k data)
   \<and> (data \<noteq> [] \<and> length data \<le> 4096 \<longrightarrow>
        receive_thread_func e (Seg data # s) =
          (case handle_chunk e data s of
             (evs, Inl x) \<Rightarrow> (evs, ThreadDied x)
           | (evs, Inr s') \<Rightarrow>
               (evs @ fst (receive_thread_func e s'), snd (receive_thread_func e s'))))"
proof -
  have a: "kind f = TextMessage \<longrightarrow> encode f = Some (payload f)"
    by (simp add: encode_def)
  have b: "kind f = FileTransfer \<longrightarrow>
        encode f =
          map_option (\<lambda>header. header @ payload f)
            (utf8_encode (ascii ''FILE:'' @ metadata f @ ascii '':'' @ [NL]))"
    by (simp add: encode_def file_header_def ascii_def COLON_def)
  from a b payload_suffix [of data] receive_step [of data e s] show ?thesis
    by blast
qed

theorem wire_encoding_unframed_witness:
  "encode \<lparr>kind = TextMessage, metadata = [], payload = ''-----A''\<rparr> = Some ''-----A''
   \<and> encode \<lparr>kind = FileTransfer, metadata = ascii ''a.txt'', payload = ''-----X''\<rparr> =
       Some ''FILE:a.txt:\<newline>-----X''
   \<and> receive_thread_func (sample_env ''gpg: no data'') [Seg ''-----A''] =
       ([RunGpgDecrypt ''-----A'', OutPeer (ascii ''hi''), OutClosedByPeer, CloseConnection],
        OsExit 0)"
proof -
  let ?t = "\<lparr>kind = TextMessage, metadata = [], payload = ''-----A''\<rparr>"
  let ?f = "\<lparr>kind = FileTransfer, metadata = ascii ''a.txt'', payload = ''-----X''\<rparr>"
  let ?E = "sample_env ''gpg: no data''"
  have 1: "encode ?t = Some ''-----A''"
    using wire_encoding_unframed [of ?t] by simp
  have u: "utf8_encode (ascii ''FILE:'' @ ascii ''a.txt'' @ ascii '':'' @ [NL]) =
             Some ''FILE:a.txt:\<newline>''"
    by code_simp
  have 2: "encode ?f = Some ''FILE:a.txt:\<newline>-----X''"
    using wire_encoding_unframed [of ?f] u by simp
  have h: "handle_chunk ?E ''-----A'' [] =
             ([RunGpgDecrypt ''-----A'', OutPeer (ascii ''hi'')], Inr [])"
    using text_success [OF A_is_text, of ?E "''hi''" "[]"]
    by (simp add: sample_gpg_decrypt sample_decode_ignore hi_text)
  have 3: "receive_thread_func ?E [Seg ''-----A''] =
       ([RunGpgDecrypt ''-----A'', OutPeer (ascii ''hi''), OutClosedByPeer, CloseConnection],
        OsExit 0)"
    using wire_encoding_unframed [of ?t "''-----A''" ?E "[]"] h
    by (simp add: receive_eof)
  from 1 2 3 show ?thesis
    by simp
qed

text \<open>
  No 4-byte length stands before the ciphertext: the text message \<open>-----A\<close> is written as
  those six bytes. And the end of a unit follows the reads: two messages that arrive in
  one read are decrypted as one, and in two reads as two.
\<close>

theorem length_field_counterexample:
  "encode \<lparr>kind = TextMessage, metadata = [], payload = ''-----A''\<rparr> = Some ''-----A''
   \<and> receive_thread_func (sample_env ''gpg: no data'') [Seg ''-----A-----B''] =
       ([RunGpgDecrypt ''-----A-----B'', OutPeer (ascii ''hi''),
         OutClosedByPeer, CloseConnection], OsExit 0)
   \<and> receive_thread_func (sample_env ''gpg: no data'') [Seg ''-----A'', Seg ''-----B''] =
       ([RunGpgDecrypt ''-----A'', OutPeer (ascii ''hi''),
         RunGpgDecrypt ''-----B'', OutPeer (ascii ''hi''),
         OutClosedByPeer, CloseConnection], OsExit 0)"
proof -
  let ?E = "sample_env ''gpg: no data''"
  have enc: "encode \<lparr>kind = TextMessage, metadata = [], payload = ''-----A''\<rparr> = Some ''-----A''"
    by code_simp
  have hab: "handle_chunk ?E ''-----A-----B'' [] =
             ([RunGpgDecrypt ''-----A-----B'', OutPeer (ascii ''hi'')], Inr [])"
    using text_success [OF AB_is_text, of ?E "''hi''" "[]"]
    by (simp add: sample_gpg_decrypt sample_decode_ignore hi_text)
  have ha: "handle_chunk ?E ''-----A'' [Seg ''-----B''] =
             ([RunGpgDecrypt ''-----A'', OutPeer (ascii ''hi'')], Inr [Seg ''-----B''])"
    using text_success [OF A_is_text, of ?E "''hi''" "[Seg ''-----B'']"]
    by (simp add: sample_gpg_decrypt sample_decode_ignore hi_text)
  have hb: "handle_chunk ?E ''-----B'' [] =
             ([RunGpgDecrypt ''-----B'', OutPeer (ascii ''hi'')], Inr [])"
    using text_success [OF B_is_text, of ?E "''hi''" "[]"]
    by (simp add: sample_gpg_decrypt sample_decode_ignore hi_text)
  have one: "receive_thread_func ?E [Seg ''-----A-----B''] =
       ([RunGpgDecrypt ''-----A-----B'', OutPeer (ascii ''hi''),
         OutClosedByPeer, CloseConnection], OsExit 0)"
    by (simp add: receive_step hab receive_eof)
  have two: "receive_thread_func ?E [Seg ''-----A'', Seg ''-----B''] =
       ([RunGpgDecrypt ''-----A'', OutPeer (ascii ''hi''),
         RunGpgDecrypt ''-----B'', OutPeer (ascii ''hi''),
         OutClosedByPeer, CloseConnection], OsExit 0)"
    by (simp add: receive_step ha hb receive_eof)
  from enc one two show ?thesis
    by simp
qed

section \<open>C4: a decryption failure\<close>

text \<open>
  C4. When gpg fails on a received text message, \<open>decrypt_message\<close> reports the error
  and returns \<open>None\<close>, and the loop reads on: that is the second run below. But the
  report decodes gpg's standard error strictly, where the successful path decodes
  standard output with errors ignored. When those bytes are not UTF-8 (here the single
  byte 0xFC, a Latin-1 u-umlaut), the decoding raises inside the handler, nothing catches
  it, and the receive thread ends: the valid message that follows is never read. That
  is the first run.
\<close>

theorem undecodable_gpg_error_ends_thread:
  "receive_thread_func (sample_env [CHR 0xFC]) [Seg ''garbage'', Seg ''-----ok''] =
     ([RunGpgDecrypt ''garbage''], ThreadDied UnicodeDecodeError)
   \<and> receive_thread_func (sample_env ''gpg: no data'') [Seg ''garbage'', Seg ''-----ok''] =
     ([RunGpgDecrypt ''garbage'', ErrDecryption (ascii ''gpg: no data''), OutCouldNotDecrypt,
       RunGpgDecrypt ''-----ok'', OutPeer (ascii ''hi''),
       OutClosedByPeer, CloseConnection], OsExit 0)"
proof -
  have u: "utf8_decode [CHR 0xFC] = None"
    by code_simp
  have h1: "handle_chunk (sample_env [CHR 0xFC]) ''garbage'' [Seg ''-----ok''] =
              ([RunGpgDecrypt ''garbage''], Inl UnicodeDecodeError)"
    by (rule text_failure_dies [OF garbage_is_text _ u]) (simp add: sample_gpg_decrypt)
  have h2: "handle_chunk (sample_env ''gpg: no data'') ''garbage'' [Seg ''-----ok''] =
              ([RunGpgDecrypt ''garbage'', ErrDecryption (ascii ''gpg: no data''),
                OutCouldNotDecrypt], Inr [Seg ''-----ok''])"
    by (rule text_failure_goes_on [OF garbage_is_text _ no_data_text])
       (simp add: sample_gpg_decrypt)
  have h3: "handle_chunk (sample_env ''gpg: no data'') ''-----ok'' [] =
              ([RunGpgDecrypt ''-----ok'', OutPeer (ascii ''hi'')], Inr [])"
    using text_success [OF ok_is_text, of "sample_env ''gpg: no data''" "''hi''" "[]"]
    by (simp add: sample_gpg_decrypt sample_decode_ignore hi_text)
  have dies: "receive_thread_func (sample_env [CHR 0xFC]) [Seg ''garbage'', Seg ''-----ok''] =
     ([RunGpgDecrypt ''garbage''], ThreadDied UnicodeDecodeError)"
    by (simp add: receive_step h1)
  have goes_on: "receive_thread_func (sample_env ''gpg: no data'')
       [Seg ''garbage'', Seg ''-----ok''] =
     ([RunGpgDecrypt ''garbage'', ErrDecryption (ascii ''gpg: no data''), OutCouldNotDecrypt,
       RunGpgDecrypt ''-----ok'', OutPeer (ascii ''hi''),
       OutClosedByPeer, CloseConnection], OsExit 0)"
    by (simp add: receive_step h2 h3 receive_eof)
  from dies goes_on show ?thesis
    by simp
qed

section \<open>C5: the path a received file is written to\<close>

text \<open>
  C5. The name given to \<open>gpg --decrypt -o\<close> is the second colon-separated part of the
  header as the peer sent it. A header naming \<open>../x\<close> makes gpg write to \<open>../x\<close>,
  outside the working directory: nothing on the receive path strips directories. The
  send path does: \<open>/send ../x\<close> announces the file as \<open>x\<close>.
\<close>

theorem peer_filename_unsanitized:
  "handle_chunk (sample_env ''gpg: no data'') ''FILE:../x:\<newline>-----X'' [] =
     ([RunGpgDecryptTo (ascii ''../x'') ''-----X'', OutFileSaved (ascii ''../x'')], Inr [])
   \<and> send_file (ascii ''../x'') ''-----X'' = Some ''FILE:x:\<newline>-----X''"
proof -
  have p: "parse_chunk ''FILE:../x:\<newline>-----X'' =
             (\<lparr>kind = FileTransfer, metadata = ascii ''../x'', payload = ''-----X''\<rparr>, False)"
    by code_simp
  have r: "receive_file (sample_env ''gpg: no data'')
             \<lparr>kind = FileTransfer, metadata = ascii ''../x'', payload = ''-----X''\<rparr> =
             ([RunGpgDecryptTo (ascii ''../x'') ''-----X'', OutFileSaved (ascii ''../x'')],
              Inr ())"
    by (simp add: receive_file_def sample_gpg_decrypt_to)
  have h: "handle_chunk (sample_env ''gpg: no data'') ''FILE:../x:\<newline>-----X'' [] =
     ([RunGpgDecryptTo (ascii ''../x'') ''-----X'', OutFileSaved (ascii ''../x'')], Inr [])"
    using handle_file [OF p _ _ r, of "[]" "[]"] by simp
  have s: "send_file (ascii ''../x'') ''-----X'' = Some ''FILE:x:\<newline>-----X''"
    by code_simp
  from h s show ?thesis
    by simp
qed

section \<open>C6: a chunk that declares a length\<close>

text \<open>
  C6, as the code has it. The source reads no length field, whatever the first bytes
  of a chunk are. Take a chunk that, read in the layout of the specification, declares
  a payload length above a maximum. The loop body hands it to gpg like any other chunk
  (whole, as a text message, or from some offset on, as a file) unless the follow-up
  read raises; it never closes the connection; and the loop goes on to the next read
  unless an exception ends the thread. The bytes handed to gpg are never more than the
  chunk itself, at most 4096: no buffer of the declared size is ever filled.
\<close>

theorem declared_length_not_read:
  assumes "spec_declared_length data = Some P" and "maximum < P" and "length data \<le> 4096"
  shows "receive_thread_func e (Seg data # s) =
       (case handle_chunk e data s of
          (evs, Inl x) \<Rightarrow> (evs, ThreadDied x)
        | (evs, Inr s') \<Rightarrow>
            (evs @ fst (receive_thread_func e s'), snd (receive_thread_func e s')))
   \<and> CloseConnection \<notin> set (fst (handle_chunk e data s))
   \<and> ((\<exists>evs r. handle_chunk e data s = (RunGpgDecrypt data # evs, r))
      \<or> (\<exists>name k evs r. handle_chunk e data s = (RunGpgDecryptTo name (drop k data) # evs, r))
      \<or> (\<exists>x. handle_chunk e data s = ([], Inl x) \<and> (x = RecvFailed \<or> x = UnicodeDecodeError)))
   \<and> length (payload (fst (parse_chunk data))) \<le> length data"
proof -
  from assms(1) have ne: "data \<noteq> []"
    by (auto simp: spec_declared_length_def)
  obtain k where "payload (fst (parse_chunk data)) = drop k data"
    using payload_suffix by blast
  then have "length (payload (fst (parse_chunk data))) \<le> length data"
    by simp
  with receive_step [OF ne assms(3), of e s] no_close_in_handle [of e data s]
       handle_chunk_gpg_first [of e data s]
  show ?thesis
    by blast
qed

theorem declared_length_not_read_witness:
  "CloseConnection \<notin> set (fst (handle_chunk (sample_env ''gpg: no data'')
       [CHR 0x01, CHR 0xFF, CHR 0xFF, CHR 0xFF, CHR 0xFF] []))
   \<and> length (payload (fst (parse_chunk [CHR 0x01, CHR 0xFF, CHR 0xFF, CHR 0xFF, CHR 0xFF]))) \<le> 5"
proof -
  let ?d = "[CHR 0x01, CHR 0xFF, CHR 0xFF, CHR 0xFF, CHR 0xFF]"
  have p: "spec_declared_length ?d = Some 4294967295"
    by (simp add: spec_declared_length_def)
  have m: "(67108864::nat) < 4294967295"
    by simp
  have l: "length ?d \<le> 4096"
    by simp
  from declared_length_not_read [OF p m l, of "sample_env ''gpg: no data''" "[]"]
  show ?thesis
    by simp
qed

text \<open>
  A chunk of five bytes whose length field reads 4294967295, far above 64 MiB, is not
  refused: gpg is run on its five bytes and fails, the failure is reported, and the
  next message is read and decrypted. The loop ends when the stream does.
\<close>

theorem declared_length_counterexample:
  "spec_declared_length [CHR 0x01, CHR 0xFF, CHR 0xFF, CHR 0xFF, CHR 0xFF] = Some 4294967295
   \<and> receive_thread_func (sample_env ''gpg: no data'')
        [Seg [CHR 0x01, CHR 0xFF, CHR 0xFF, CHR 0xFF, CHR 0xFF], Seg ''-----ok''] =
       ([RunGpgDecrypt [CHR 0x01, CHR 0xFF, CHR 0xFF, CHR 0xFF, CHR 0xFF],
         ErrDecryption (ascii ''gpg: no data''), OutCouldNotDecrypt,
         RunGpgDecrypt ''-----ok'', OutPeer (ascii ''hi''),
         OutClosedByPeer, CloseConnection], OsExit 0)"
proof -
  let ?E = "sample_env ''gpg: no data''"
  let ?d = "[CHR 0x01, CHR 0xFF, CHR 0xFF, CHR 0xFF, CHR 0xFF]"
  have p: "spec_declared_length ?d = Some 4294967295"
    by (simp add: spec_declared_length_def)
  have t: "parse_chunk ?d = (\<lparr>kind = TextMessage, metadata = [], payload = ?d\<rparr>, False)"
    by code_simp
  have h1: "handle_chunk ?E ?d [Seg ''-----ok''] =
              ([RunGpgDecrypt ?d, ErrDecryption (ascii ''gpg: no data''), OutCouldNotDecrypt],
               Inr [Seg ''-----ok''])"
    by (rule text_failure_goes_on [OF t _ no_data_text]) (simp add: sample_gpg_decrypt)
  have h2: "handle_chunk ?E ''-----ok'' [] =
              ([RunGpgDecrypt ''-----ok'', OutPeer (ascii ''hi'')], Inr [])"
    using text_success [OF ok_is_text, of ?E "''hi''" "[]"]
    by (simp add: sample_gpg_decrypt sample_decode_ignore hi_text)
  have "receive_thread_func ?E [Seg ?d, Seg ''-----ok''] =
       ([RunGpgDecrypt ?d, ErrDecryption (ascii ''gpg: no data''), OutCouldNotDecrypt,
         RunGpgDecrypt ''-----ok'', OutPeer (ascii ''hi''),
         OutClosedByPeer, CloseConnection], OsExit 0)"
    by (simp add: receive_step h1 h2 receive_eof)
  with p show ?thesis
    by simp
qed

section \<open>C7: the address family and the listener\<close>

text \<open>
  C7. The socket is an IPv6 socket exactly when a peer address was supplied and it
  contains a colon, and an IPv4 socket otherwise. In listen mode the script binds the
  wildcard address of that family (\<open>::\<close> for IPv6, the empty host for IPv4) on the given
  port, listens, and calls \<open>accept\<close> once: whatever calls succeed, no second \<open>accept\<close> is
  made, and when all succeed exactly one was.
\<close>

theorem establish_family_listen:
  "(select_family (PEER_ADDRESS c) = AF_INET6 \<longleftrightarrow>
      (\<exists>a. PEER_ADDRESS c = Some a \<and> COLON \<in> set a))
   \<and> (select_family (PEER_ADDRESS c) \<noteq> AF_INET6 \<longrightarrow> select_family (PEER_ADDRESS c) = AF_INET)
   \<and> (LISTEN_MODE c \<longrightarrow>
        establish_calls c =
          [Socket (select_family (PEER_ADDRESS c)),
           Bind (if select_family (PEER_ADDRESS c) = AF_INET6 then ascii ''::'' else []) (PORT c),
           Listen 1, Accept]
        \<and> count_list (fst (establish ok c)) Accept \<le> 1
        \<and> (snd (establish ok c) \<longrightarrow> count_list (fst (establish ok c)) Accept = 1))"
proof -
  have fam: "select_family (PEER_ADDRESS c) = AF_INET6 \<longleftrightarrow>
               (\<exists>a. PEER_ADDRESS c = Some a \<and> COLON \<in> set a)"
    by (auto simp: select_family_def split: option.splits)
  have other: "select_family (PEER_ADDRESS c) \<noteq> AF_INET6 \<longrightarrow>
                 select_family (PEER_ADDRESS c) = AF_INET"
    by (cases "select_family (PEER_ADDRESS c)") simp_all
  have calls: "establish_calls c =
          [Socket (select_family (PEER_ADDRESS c)),
           Bind (if select_family (PEER_ADDRESS c) = AF_INET6 then ascii ''::'' else []) (PORT c),
           Listen 1, Accept]" if "LISTEN_MODE c"
    using that by (simp add: establish_calls_def Let_def bind_host_def)
  have le: "count_list (fst (establish ok c)) Accept \<le> 1" if "LISTEN_MODE c"
    using run_calls_count [of ok "establish_calls c" Accept] calls [OF that]
    by (simp add: establish_def)
  have eq: "count_list (fst (establish ok c)) Accept = 1"
    if "LISTEN_MODE c" "snd (establish ok c)"
    using run_calls_all [of ok "establish_calls c"] that calls [OF that(1)]
    by (simp add: establish_def)
  from fam other calls le eq show ?thesis
    by blast
qed

theorem establish_family_listen_witness:
  "select_family (Some (ascii ''::1'')) = AF_INET6
   \<and> establish_calls \<lparr>LISTEN_MODE = True, PEER_ADDRESS = Some (ascii ''::1''), PORT = 9000\<rparr> =
       [Socket AF_INET6, Bind (ascii ''::'') 9000, Listen 1, Accept]
   \<and> count_list
        (fst (establish (\<lambda>c. True)
               \<lparr>LISTEN_MODE = True, PEER_ADDRESS = Some (ascii ''::1''), PORT = 9000\<rparr>))
        Accept = 1"
proof -
  let ?c = "\<lparr>LISTEN_MODE = True, PEER_ADDRESS = Some (ascii ''::1''), PORT = 9000\<rparr>"
  have colon: "\<exists>a. PEER_ADDRESS ?c = Some a \<and> COLON \<in> set a"
    by (simp add: ascii_def COLON_def)
  have fam: "select_family (PEER_ADDRESS ?c) = AF_INET6"
    using establish_family_listen [of ?c] colon by blast
  have standing: "snd (establish (\<lambda>c. True) ?c)"
    by (simp add: establish_def establish_calls_def Let_def)
  have listen: "LISTEN_MODE ?c"
    by simp
  from establish_family_listen [of ?c "\<lambda>c. True"] listen standing fam show ?thesis
    by simp
qed

section \<open>C8: telling text from file\<close>





section \<open>C9: the end of the stream\<close>

text \<open>
  C9. End of data or an error at the read that opens each turn of the loop ends the
  loop: the connection is closed and the process exits with code 0. That is the second
  run below. The follow-up read of the file branch is not guarded: when it raises,
  nothing catches the exception, the receive thread ends without closing the connection
  or exiting, and the process lives on. That is the first run.
\<close>

theorem follow_up_recv_error_ends_thread:
  "receive_thread_func (sample_env ''gpg: no data'') [Seg ''FILE:a.txt:\<newline>'', Err] =
     ([], ThreadDied RecvFailed)
   \<and> receive_thread_func (sample_env ''gpg: no data'') [Seg ''-----ok'', Err] =
     ([RunGpgDecrypt ''-----ok'', OutPeer (ascii ''hi''), ErrSocketReceive, CloseConnection],
      OsExit 0)"
proof -
  have p1: "parse_chunk ''FILE:a.txt:\<newline>'' =
              (\<lparr>kind = FileTransfer, metadata = ascii ''a.txt'', payload = []\<rparr>, True)"
    by code_simp
  have f1: "follow_up [Err] = Inl RecvFailed"
    by (simp add: follow_up_def)
  have h1: "handle_chunk (sample_env ''gpg: no data'') ''FILE:a.txt:\<newline>'' [Err] =
              ([], Inl RecvFailed)"
    using handle_file_follow_up_raises [OF p1 _ f1] by simp
  have h2: "handle_chunk (sample_env ''gpg: no data'') ''-----ok'' [Err] =
              ([RunGpgDecrypt ''-----ok'', OutPeer (ascii ''hi'')], Inr [Err])"
    using text_success [OF ok_is_text, of "sample_env ''gpg: no data''" "''hi''" "[Err]"]
    by (simp add: sample_gpg_decrypt sample_decode_ignore hi_text)
  have a: "receive_thread_func (sample_env ''gpg: no data'')
             [Seg ''FILE:a.txt:\<newline>'', Err] = ([], ThreadDied RecvFailed)"
    by (simp add: receive_step h1)
  have b: "receive_thread_func (sample_env ''gpg: no data'') [Seg ''-----ok'', Err] =
     ([RunGpgDecrypt ''-----ok'', OutPeer (ascii ''hi''), ErrSocketReceive, CloseConnection],
      OsExit 0)"
    by (simp add: receive_step h2 receive_error)
  from a b show ?thesis
    by simp
qed

section \<open>C10: the name of a received file\<close>



end
